theory Spec2Isabelle
  imports Main
begin

section \<open>JavaScript values\<close>

text \<open>
  The engine (\<^verbatim>\<open>createGameLogic\<close> in \<^verbatim>\<open>gameLogic.js\<close>) is untyped: its roster is
  whatever \<^verbatim>\<open>JSON.parse\<close> returned, and \<^verbatim>\<open>setGameState\<close> receives any value at all.
  The model therefore works on JavaScript values as trees: \<^verbatim>\<open>undefined\<close>, \<^verbatim>\<open>null\<close>,
  booleans, numbers, strings, arrays and plain objects. An object is the list of its own
  properties in enumeration order; a read takes the first entry of a name.

  Numbers are modelled by \<open>int\<close>: the engine only compares numbers and adds one to them,
  which on integers below \<open>2^53\<close> is what IEEE doubles do. Fractions, \<^verbatim>\<open>NaN\<close> and the
  infinities have no term here. Functions, symbols and objects with accessors or a
  prototype of their own are not values of the model either.
\<close>

datatype jsval =
    JUndefined
  | JNull
  | JBool bool
  | JNum int
  | JStr string
  | JArr "jsval list"
  | JObj "(string \<times> jsval) list"

text \<open>
  What an operation can end in besides a result: the two exceptions the engine can raise,
  and \<open>Unmodelled\<close> where JavaScript goes on with a coercion the model has no term for
  (\<^verbatim>\<open>undefined + 1\<close> is \<^verbatim>\<open>NaN\<close>, \<^verbatim>\<open>"a" + 1\<close> is a string, a named property stored on
  an array). No theorem below draws a conclusion from an \<open>Unmodelled\<close> outcome.
\<close>

datatype error = TypeError | SyntaxError | Unmodelled

text \<open>\<^verbatim>\<open>ToBoolean\<close>, as \<^verbatim>\<open>if (v)\<close> and \<^verbatim>\<open>a && b\<close> apply it.\<close>

fun truthy :: "jsval \<Rightarrow> bool" where
  "truthy JUndefined = False"
| "truthy JNull = False"
| "truthy (JBool b) = b"
| "truthy (JNum n) = (n \<noteq> 0)"
| "truthy (JStr s) = (s \<noteq> [])"
| "truthy (JArr xs) = True"
| "truthy (JObj fs) = True"

text \<open>
  \<^verbatim>\<open>v.k\<close> for the property names the engine reads (\<^verbatim>\<open>players\<close>, \<^verbatim>\<open>currentRound\<close>,
  \<^verbatim>\<open>cardHeld\<close>, \<^verbatim>\<open>score\<close>), none of which a built-in prototype defines: a read on
  \<^verbatim>\<open>undefined\<close> or \<^verbatim>\<open>null\<close> throws, a read on any other value without that own
  property is \<^verbatim>\<open>undefined\<close>.
\<close>

fun get_prop :: "jsval \<Rightarrow> string \<Rightarrow> error + jsval" where
  "get_prop JUndefined k = Inl TypeError"
| "get_prop JNull k = Inl TypeError"
| "get_prop (JObj fs) k = Inr (case map_of fs k of Some v \<Rightarrow> v | None \<Rightarrow> JUndefined)"
| "get_prop v k = Inr JUndefined"

text \<open>
  \<^verbatim>\<open>o.k = v\<close> in module (strict) code: an existing property keeps its place, a new one
  goes last; on \<^verbatim>\<open>null\<close>, \<^verbatim>\<open>undefined\<close> and on a primitive the assignment throws.
\<close>

fun assign :: "string \<Rightarrow> 'a \<Rightarrow> (string \<times> 'a) list \<Rightarrow> (string \<times> 'a) list" where
  "assign k v [] = [(k, v)]"
| "assign k v ((k', v') # fs) = (if k' = k then (k, v) # fs else (k', v') # assign k v fs)"

fun set_prop :: "jsval \<Rightarrow> string \<Rightarrow> jsval \<Rightarrow> error + jsval" where
  "set_prop (JObj fs) k v = Inr (JObj (assign k v fs))"
| "set_prop (JArr xs) k v = Inl Unmodelled"
| "set_prop u k v = Inl TypeError"

text \<open>
  The values a \<^verbatim>\<open>for (const x of v)\<close> loop visits: the elements of an array, the
  characters of a string; nothing else in the model is iterable.
\<close>

fun iterate :: "jsval \<Rightarrow> error + jsval list" where
  "iterate (JArr xs) = Inr xs"
| "iterate (JStr s) = Inr (map (\<lambda>c. JStr [c]) s)"
| "iterate v = Inl TypeError"

text \<open>
  \<^verbatim>\<open>JSON.parse(JSON.stringify(v))\<close>. Inside an array \<^verbatim>\<open>undefined\<close> is written as
  \<^verbatim>\<open>null\<close>, inside an object a property holding \<^verbatim>\<open>undefined\<close> is left out; at top
  level \<^verbatim>\<open>JSON.stringify(undefined)\<close> is \<^verbatim>\<open>undefined\<close>, which \<^verbatim>\<open>JSON.parse\<close> refuses.
\<close>

fun json_value :: "jsval \<Rightarrow> jsval"
  and json_elems :: "jsval list \<Rightarrow> jsval list"
  and json_props :: "(string \<times> jsval) list \<Rightarrow> (string \<times> jsval) list" where
  "json_value (JArr xs) = JArr (json_elems xs)"
| "json_value (JObj fs) = JObj (json_props fs)"
| "json_value v = v"
| "json_elems [] = []"
| "json_elems (x # xs) = (if x = JUndefined then JNull else json_value x) # json_elems xs"
| "json_props [] = []"
| "json_props ((k, v) # fs) =
     (if v = JUndefined then json_props fs else (k, json_value v) # json_props fs)"

definition json_copy :: "jsval \<Rightarrow> error + jsval" where
  "json_copy v = (if v = JUndefined then Inl SyntaxError else Inr (json_value v))"

section \<open>The engine\<close>

text \<open>
  The constants of the module. \<^verbatim>\<open>TOTAL_ROUNDS\<close> is \<^verbatim>\<open>Math.floor\<close> of the quotient; both numbers are positive
  here, where it is the integer quotient.
\<close>

definition initialPlayers :: jsval where
  "initialPlayers = JArr
     [JObj [(''name'', JStr ''Player 1''), (''cardHeld'', JNull), (''score'', JNum 0)],
      JObj [(''name'', JStr ''Player 2''), (''cardHeld'', JNull), (''score'', JNum 0)],
      JObj [(''name'', JStr ''Player 3''), (''cardHeld'', JNull), (''score'', JNum 0)],
      JObj [(''name'', JStr ''Player 4''), (''cardHeld'', JNull), (''score'', JNum 0)]]"

definition DECK_SIZE :: int where
  "DECK_SIZE = 40"

definition MAX_CARD_VALUE :: int where
  "MAX_CARD_VALUE = 12"

definition POINTS_PER_SCORE :: int where
  "POINTS_PER_SCORE = 1"

definition NUM_PLAYERS :: int where
  "NUM_PLAYERS = (case initialPlayers of JArr xs \<Rightarrow> int (length xs) | _ \<Rightarrow> 0)"

definition TOTAL_ROUNDS :: int where
  "TOTAL_ROUNDS = DECK_SIZE div NUM_PLAYERS"

text \<open>
  The variables the closure of \<^verbatim>\<open>createGameLogic\<close> holds. \<^verbatim>\<open>stateHistory\<close> is a
  JavaScript array used as a stack: \<^verbatim>\<open>push\<close> appends, \<^verbatim>\<open>pop\<close> takes the last entry.
\<close>

record engine =
  players :: jsval
  currentRound :: int
  stateHistory :: "jsval list"

text \<open>
  \<^verbatim>\<open>getGameState\<close>: the object \<^verbatim>\<open>{players, currentRound, totalRounds}\<close>, the roster copied through JSON.
\<close>

definition getGameState :: "engine \<Rightarrow> error + jsval" where
  "getGameState e =
     (case json_copy (players e) of
        Inl err \<Rightarrow> Inl err
      | Inr ps \<Rightarrow> Inr (JObj [(''players'', ps),
                             (''currentRound'', JNum (currentRound e)),
                             (''totalRounds'', JNum TOTAL_ROUNDS)]))"

text \<open>
  \<^verbatim>\<open>state && state.players && typeof state.currentRound === 'number'\<close>, with the
  short-circuit of \<^verbatim>\<open>&&\<close> as nested conditionals.
\<close>

definition setGameState :: "jsval \<Rightarrow> engine \<Rightarrow> error + (bool \<times> engine)" where
  "setGameState state e =
     (if truthy state then
        (case get_prop state ''players'' of
           Inl err \<Rightarrow> Inl err
         | Inr ps \<Rightarrow>
             if truthy ps then
               (case get_prop state ''currentRound'' of
                  Inl err \<Rightarrow> Inl err
                | Inr (JNum n) \<Rightarrow>
                    (case json_copy ps of
                       Inl err \<Rightarrow> Inl err
                     | Inr ps' \<Rightarrow> Inr (True, e\<lparr>players := ps', currentRound := n\<rparr>))
                | Inr other \<Rightarrow> Inr (False, e))
             else Inr (False, e))
      else Inr (False, e))"

text \<open>The parameter default \<^verbatim>\<open>savedState = null\<close> replaces a missing or undefined argument.\<close>

definition createGameLogic :: "jsval \<Rightarrow> error + engine" where
  "createGameLogic arg =
     (let savedState = (if arg = JUndefined then JNull else arg);
          fresh = (case json_copy initialPlayers of
                     Inl err \<Rightarrow> Inl err
                   | Inr ps \<Rightarrow> Inr \<lparr>players = ps, currentRound = 0, stateHistory = []\<rparr>)
      in if truthy savedState then
           (case get_prop savedState ''players'' of
              Inl err \<Rightarrow> Inl err
            | Inr ps \<Rightarrow>
                if truthy ps then
                  (case get_prop savedState ''currentRound'' of
                     Inl err \<Rightarrow> Inl err
                   | Inr (JNum n) \<Rightarrow>
                       (case json_copy ps of
                          Inl err \<Rightarrow> Inl err
                        | Inr ps' \<Rightarrow>
                            Inr \<lparr>players = ps', currentRound = n, stateHistory = []\<rparr>)
                   | Inr other \<Rightarrow> fresh)
                else fresh)
         else fresh)"

definition resetGame :: "engine \<Rightarrow> error + engine" where
  "resetGame e =
     (case json_copy initialPlayers of
        Inl err \<Rightarrow> Inl err
      | Inr ps \<Rightarrow> Inr (e\<lparr>players := ps, currentRound := 0, stateHistory := []\<rparr>))"




section \<open>Renaming a player\<close>

text \<open>
  The decimal numeral of an array index, as \<^verbatim>\<open>o[i]\<close> turns it into a property name.
\<close>

fun numeral_of :: "nat \<Rightarrow> string" where
  "numeral_of n =
     (if n < 10 then [''0123456789'' ! n]
      else numeral_of (n div 10) @ [''0123456789'' ! (n mod 10)])"

declare numeral_of.simps [simp del]

text \<open>
  \<^verbatim>\<open>players[playerIndex]\<close> for an index \<open>0, 1, 2, ...\<close>: an element of an array, a
  character of a string, the property of an object under the numeral.
\<close>

fun get_index :: "jsval \<Rightarrow> nat \<Rightarrow> error + jsval" where
  "get_index JUndefined i = Inl TypeError"
| "get_index JNull i = Inl TypeError"
| "get_index (JArr xs) i = Inr (if i < length xs then xs ! i else JUndefined)"
| "get_index (JStr s) i = Inr (if i < length s then JStr [s ! i] else JUndefined)"
| "get_index (JObj fs) i = get_prop (JObj fs) (numeral_of i)"
| "get_index v i = Inr JUndefined"

text \<open>
  The value that holds the players holds the changed player after an assignment to one
  of its properties.
\<close>

fun put_index :: "jsval \<Rightarrow> nat \<Rightarrow> jsval \<Rightarrow> jsval" where
  "put_index (JArr xs) i p = JArr (xs[i := p])"
| "put_index (JObj fs) i p = JObj (assign (numeral_of i) p fs)"
| "put_index v i p = v"

text \<open>
  \<^verbatim>\<open>modifyPlayerName(playerIndex, newName)\<close> with an index \<open>0, 1, 2, ...\<close>. A player that is not there and the name \<^verbatim>\<open>""\<close> change nothing.
\<close>

definition modifyPlayerName :: "nat \<Rightarrow> jsval \<Rightarrow> engine \<Rightarrow> error + engine" where
  "modifyPlayerName playerIndex newName e =
     (case get_index (players e) playerIndex of
        Inl err \<Rightarrow> Inl err
      | Inr player \<Rightarrow>
          if truthy player \<and> newName \<noteq> JStr '''' then
            (case set_prop player ''name'' newName of
               Inl err \<Rightarrow> Inl err
             | Inr player' \<Rightarrow> Inr (e\<lparr>players := put_index (players e) playerIndex player'\<rparr>))
          else Inr e)"

section \<open>Rounds\<close>

text \<open>
  \<^verbatim>\<open>Math.floor(Math.random() * MAX_CARD_VALUE) + 1\<close>. The random source is an oracle:
  \<open>r\<close> stands for \<^verbatim>\<open>Math.floor(Math.random() * MAX_CARD_VALUE)\<close>, a value of
  \<open>0 .. MAX_CARD_VALUE - 1\<close>, and an oracle value outside that range is reduced into it.
  An oracle \<open>rnd\<close> of a call gives the values in the order the call draws them.
\<close>

definition drawCard :: "nat \<Rightarrow> int" where
  "drawCard r = int (r mod nat MAX_CARD_VALUE) + 1"

text \<open>
  The loop of \<^verbatim>\<open>drawCards\<close> over the players, the first of them drawing \<open>rnd 0\<close>.
\<close>

fun draw_each :: "(nat \<Rightarrow> nat) \<Rightarrow> jsval list \<Rightarrow> error + jsval list" where
  "draw_each rnd [] = Inr []"
| "draw_each rnd (player # rest) =
     (case set_prop player ''cardHeld'' (JNum (drawCard (rnd 0))) of
        Inl err \<Rightarrow> Inl err
      | Inr player' \<Rightarrow>
          (case draw_each (\<lambda>i. rnd (Suc i)) rest of
             Inl err \<Rightarrow> Inl err
           | Inr rest' \<Rightarrow> Inr (player' # rest')))"

text \<open>
  The loops of the engine assign to the properties of the values they visit. The elements
  of an array are objects of the array, so the array holds the changed players afterwards;
  the characters of a string are primitives, and a string stays what it was.
\<close>

fun write_back :: "jsval \<Rightarrow> jsval list \<Rightarrow> jsval" where
  "write_back (JArr xs) ys = JArr ys"
| "write_back v ys = v"

definition drawCards :: "(nat \<Rightarrow> nat) \<Rightarrow> engine \<Rightarrow> error + engine" where
  "drawCards rnd e =
     (case iterate (players e) of
        Inl err \<Rightarrow> Inl err
      | Inr xs \<Rightarrow>
          (case draw_each rnd xs of
             Inl err \<Rightarrow> Inl err
           | Inr ys \<Rightarrow> Inr (e\<lparr>players := write_back (players e) ys\<rparr>)))"

text \<open>
  The first loop of \<^verbatim>\<open>resolveRound\<close>, from the value \<open>b\<close> of
  \<^verbatim>\<open>biggestCardOfRound\<close>. \<^verbatim>\<open>>\<close> is modelled where the card is a number.
\<close>

fun biggest_card :: "int \<Rightarrow> jsval list \<Rightarrow> error + int" where
  "biggest_card b [] = Inr b"
| "biggest_card b (player # rest) =
     (case get_prop player ''cardHeld'' of
        Inl err \<Rightarrow> Inl err
      | Inr (JNum c) \<Rightarrow> biggest_card (if c > b then c else b) rest
      | Inr other \<Rightarrow> Inl Unmodelled)"

text \<open>\<^verbatim>\<open>player.score += POINTS_PER_SCORE\<close>, modelled where the score is a number.\<close>

definition add_score :: "jsval \<Rightarrow> error + jsval" where
  "add_score player =
     (case get_prop player ''score'' of
        Inl err \<Rightarrow> Inl err
      | Inr (JNum s) \<Rightarrow> set_prop player ''score'' (JNum (s + POINTS_PER_SCORE))
      | Inr other \<Rightarrow> Inl Unmodelled)"

text \<open>
  The second loop. \<^verbatim>\<open>===\<close> does not coerce: a card equals the biggest card when it is
  that number.
\<close>

fun award :: "int \<Rightarrow> jsval list \<Rightarrow> error + jsval list" where
  "award b [] = Inr []"
| "award b (player # rest) =
     (case get_prop player ''cardHeld'' of
        Inl err \<Rightarrow> Inl err
      | Inr c \<Rightarrow>
          (case (if c = JNum b then add_score player else Inr player) of
             Inl err \<Rightarrow> Inl err
           | Inr player' \<Rightarrow>
               (case award b rest of
                  Inl err \<Rightarrow> Inl err
                | Inr rest' \<Rightarrow> Inr (player' # rest'))))"

definition resolveRound :: "engine \<Rightarrow> error + engine" where
  "resolveRound e =
     (case iterate (players e) of
        Inl err \<Rightarrow> Inl err
      | Inr xs \<Rightarrow>
          (case biggest_card 0 xs of
             Inl err \<Rightarrow> Inl err
           | Inr biggestCardOfRound \<Rightarrow>
               (case award biggestCardOfRound xs of
                  Inl err \<Rightarrow> Inl err
                | Inr ys \<Rightarrow>
                    Inr (e\<lparr>players := write_back (players e) ys,
                           currentRound := currentRound e + 1\<rparr>))))"

text \<open>
  \<^verbatim>\<open>runRound\<close>: the snapshot of the state before the round goes onto the history, then the cards
  are drawn and the round is resolved.
\<close>

definition runRound :: "(nat \<Rightarrow> nat) \<Rightarrow> engine \<Rightarrow> error + (bool \<times> engine)" where
  "runRound rnd e =
     (if currentRound e < TOTAL_ROUNDS then
        (case getGameState e of
           Inl err \<Rightarrow> Inl err
         | Inr snapshot \<Rightarrow>
             (case drawCards rnd (e\<lparr>stateHistory := stateHistory e @ [snapshot]\<rparr>) of
                Inl err \<Rightarrow> Inl err
              | Inr e1 \<Rightarrow>
                  (case resolveRound e1 of
                     Inl err \<Rightarrow> Inl err
                   | Inr e2 \<Rightarrow> Inr (True, e2))))
      else Inr (False, e))"

text \<open>The result of \<^verbatim>\<open>setGameState(previousState)\<close> is dropped, as in the source.\<close>

definition undoLastRound :: "engine \<Rightarrow> error + (bool \<times> engine)" where
  "undoLastRound e =
     (if length (stateHistory e) > 0 then
        (let previousState = last (stateHistory e);
             e1 = e\<lparr>stateHistory := butlast (stateHistory e)\<rparr>
         in case setGameState previousState e1 of
              Inl err \<Rightarrow> Inl err
            | Inr (ok, e2) \<Rightarrow> Inr (True, e2))
      else Inr (False, e))"

section \<open>The game loop\<close>

text \<open>
  A round that returns leaves \<^verbatim>\<open>currentRound\<close> one higher; the loop below ends for that reason.
\<close>

lemma runRound_round:
  "runRound rnd e = Inr (ok, e') \<Longrightarrow> currentRound e < TOTAL_ROUNDS \<Longrightarrow>
   currentRound e' = currentRound e + 1"
  by (auto simp: runRound_def drawCards_def resolveRound_def split: sum.splits)

text \<open>
  \<^verbatim>\<open>while (currentRound < TOTAL_ROUNDS) runRound();\<close> and \<^verbatim>\<open>return players\<close>. The oracle
  \<open>rnds k\<close> gives the draws of the \<open>k\<close>-th round the loop runs. A round that throws ends
  the loop with that exception.
\<close>

function runGameLoop :: "(nat \<Rightarrow> nat \<Rightarrow> nat) \<Rightarrow> engine \<Rightarrow> error + (jsval \<times> engine)" where
  "runGameLoop rnds e =
     (if currentRound e < TOTAL_ROUNDS then
        (case runRound (rnds 0) e of
           Inl err \<Rightarrow> Inl err
         | Inr (ok, e') \<Rightarrow> runGameLoop (\<lambda>k. rnds (Suc k)) e')
      else Inr (players e, e))"
  by pat_completeness auto
termination
proof (relation "measure (\<lambda>(rnds, e). nat (TOTAL_ROUNDS - currentRound e))")
  show "wf (measure (\<lambda>(rnds, e). nat (TOTAL_ROUNDS - currentRound e)))" by simp
next
  fix rnds :: "nat \<Rightarrow> nat \<Rightarrow> nat" and e :: engine and x2 ok e'
  assume "currentRound e < TOTAL_ROUNDS" and "runRound (rnds 0) e = Inr x2" and "(ok, e') = x2"
  then have "currentRound e' = currentRound e + 1"
    using runRound_round[of "rnds 0" e ok e'] by simp
  then show "((\<lambda>k. rnds (Suc k), e'), (rnds, e))
      \<in> measure (\<lambda>(rnds, e). nat (TOTAL_ROUNDS - currentRound e))"
    using \<open>currentRound e < TOTAL_ROUNDS\<close> by simp
qed

declare runGameLoop.simps [simp del]

section \<open>Calls on an engine\<close>

text \<open>
  The calls a user of the engine can make on it, and a sequence of calls made one after
  the other; an exception ends the sequence.
\<close>

datatype call =
    ModifyPlayerName nat jsval
  | RunGameLoop "nat \<Rightarrow> nat \<Rightarrow> nat"
  | RunRound "nat \<Rightarrow> nat"
  | UndoLastRound
  | GetGameState
  | SetGameState jsval
  | ResetGame

fun perform :: "call \<Rightarrow> engine \<Rightarrow> error + engine" where
  "perform (ModifyPlayerName playerIndex newName) e = modifyPlayerName playerIndex newName e"
| "perform (RunGameLoop rnds) e =
     (case runGameLoop rnds e of Inl err \<Rightarrow> Inl err | Inr (ps, e') \<Rightarrow> Inr e')"
| "perform (RunRound rnd) e =
     (case runRound rnd e of Inl err \<Rightarrow> Inl err | Inr (ok, e') \<Rightarrow> Inr e')"
| "perform UndoLastRound e =
     (case undoLastRound e of Inl err \<Rightarrow> Inl err | Inr (ok, e') \<Rightarrow> Inr e')"
| "perform GetGameState e =
     (case getGameState e of Inl err \<Rightarrow> Inl err | Inr snapshot \<Rightarrow> Inr e)"
| "perform (SetGameState state) e =
     (case setGameState state e of Inl err \<Rightarrow> Inl err | Inr (ok, e') \<Rightarrow> Inr e')"
| "perform ResetGame e = resetGame e"

fun perform_all :: "call list \<Rightarrow> engine \<Rightarrow> error + engine" where
  "perform_all [] e = Inr e"
| "perform_all (c # cs) e =
     (case perform c e of Inl err \<Rightarrow> Inl err | Inr e' \<Rightarrow> perform_all cs e')"

section \<open>Values in a store\<close>

text \<open>
  Arrays and objects are references in JavaScript: two variables can hold the same array,
  and an assignment through one is seen through the other. Where that matters (what
  \<^verbatim>\<open>getGameState\<close> and \<^verbatim>\<open>getPlayers\<close> hand out) the values live in a store: a value is
  a primitive or the address of a cell, a cell is an array or an object whose entries are
  values again, and the store is the list of the cells allocated so far, a new cell going
  last.
\<close>

type_synonym addr = nat

datatype hval =
    HUndefined
  | HNull
  | HBool bool
  | HNum int
  | HStr string
  | HRef addr

datatype cell =
    CArr "hval list"
  | CObj "(string \<times> hval) list"

type_synonym store = "cell list"











text \<open>The values a cell holds, and the cells a holder of a value can get to.\<close>

fun cell_vals :: "cell \<Rightarrow> hval list" where
  "cell_vals (CArr vs) = vs"
| "cell_vals (CObj ps) = map snd ps"

inductive_set reach :: "store \<Rightarrow> hval \<Rightarrow> addr set" for h :: store and v :: hval where
  root: "v = HRef a \<Longrightarrow> a < length h \<Longrightarrow> a \<in> reach h v"
| step: "a \<in> reach h v \<Longrightarrow> HRef b \<in> set (cell_vals (h ! a)) \<Longrightarrow> b < length h \<Longrightarrow>
         b \<in> reach h v"

section \<open>The vocabulary of the properties\<close>

text \<open>
  The players of a roster that is an array, and of an engine; the card a player holds
  and its score, as numbers (\<open>0\<close> where the property is not a number).
\<close>

definition elements :: "jsval \<Rightarrow> jsval list" where
  "elements v = (case v of JArr xs \<Rightarrow> xs | _ \<Rightarrow> [])"

definition roster :: "engine \<Rightarrow> jsval list" where
  "roster e = elements (players e)"






text \<open>
  The property of a value that is not \<^verbatim>\<open>null\<close> or \<^verbatim>\<open>undefined\<close> (a read on those throws);
  \<^verbatim>\<open>typeof v === 'number'\<close> asks whether a value is a number.
\<close>

definition field :: "jsval \<Rightarrow> string \<Rightarrow> jsval" where
  "field v k = (case get_prop v k of Inr x \<Rightarrow> x | Inl err \<Rightarrow> JUndefined)"

fun is_number :: "jsval \<Rightarrow> bool" where
  "is_number (JNum n) = True"
| "is_number v = False"





text \<open>
  Calls of \<^verbatim>\<open>setGameState\<close>; calls that rename a player to a string (every other call counts as
  such); arrays; and rosters in which no player holds a card.
\<close>

fun is_import :: "call \<Rightarrow> bool" where
  "is_import (SetGameState state) = True"
| "is_import c = False"


fun is_array :: "jsval \<Rightarrow> bool" where
  "is_array (JArr xs) = True"
| "is_array v = False"

definition cards_null :: "jsval \<Rightarrow> bool" where
  "cards_null ps = list_all (\<lambda>p. get_prop p ''cardHeld'' = Inr JNull) (elements ps)"

text \<open>
  What holds of an engine that was created without a saved state and has loaded none
  since: the roster is an array, the history has one snapshot for each round played, the
  snapshot under \<open>i\<close> others is the state of round \<open>i\<close>, and in round \<open>0\<close> no
  player holds a card.
\<close>

definition snapshot_of :: "nat \<Rightarrow> jsval \<Rightarrow> bool" where
  "snapshot_of i s =
     (is_array (field s ''players'') \<and>
      s = JObj [(''players'', field s ''players''), (''currentRound'', JNum (int i)),
                (''totalRounds'', JNum TOTAL_ROUNDS)] \<and>
      (i = 0 \<longrightarrow> cards_null (field s ''players'')))"

definition unloaded :: "engine \<Rightarrow> bool" where
  "unloaded e =
     (is_array (players e) \<and>
      currentRound e = int (length (stateHistory e)) \<and>
      (currentRound e = 0 \<longrightarrow> cards_null (players e)) \<and>
      (\<forall>i<length (stateHistory e). snapshot_of i (stateHistory e ! i)))"


text \<open>
  \<open>n\<close> calls of \<^verbatim>\<open>runRound\<close> one after the other, the \<open>k\<close>-th with the draws \<open>rnds k\<close>;
  the state of the engine after the first \<open>k\<close> of them; and the snapshot
  \<^verbatim>\<open>getGameState\<close> returns in a state.
\<close>

fun after_rounds :: "nat \<Rightarrow> (nat \<Rightarrow> nat \<Rightarrow> nat) \<Rightarrow> engine \<Rightarrow> error + engine" where
  "after_rounds 0 rnds e = Inr e"
| "after_rounds (Suc n) rnds e =
     (case runRound (rnds 0) e of
        Inl err \<Rightarrow> Inl err
      | Inr (ok, e') \<Rightarrow> after_rounds n (\<lambda>k. rnds (Suc k)) e')"

definition round_state :: "(nat \<Rightarrow> nat \<Rightarrow> nat) \<Rightarrow> engine \<Rightarrow> nat \<Rightarrow> engine" where
  "round_state rnds e k = (case after_rounds k rnds e of Inr e' \<Rightarrow> e' | Inl err \<Rightarrow> e)"

definition snapshot :: "engine \<Rightarrow> jsval" where
  "snapshot e = (case getGameState e of Inr s \<Rightarrow> s | Inl err \<Rightarrow> JUndefined)"



definition val_in :: "nat \<Rightarrow> nat \<Rightarrow> hval \<Rightarrow> bool" where
  "val_in lo hi v = (case v of HRef a \<Rightarrow> lo \<le> a \<and> a < hi | _ \<Rightarrow> True)"


section \<open>Example states\<close>

text \<open>
  The states and stores the theorems below are tried on. \<open>newGame\<close> is the engine
  \<^verbatim>\<open>createGameLogic()\<close> makes; \<open>tieDraw\<close> draws the cards 1, 12, 1, 12, and \<open>afterTie\<close> is the
  engine after one round of these draws.
\<close>

definition newGame :: engine where
  "newGame = \<lparr>players = initialPlayers, currentRound = 0, stateHistory = []\<rparr>"

definition tieDraw :: "nat \<Rightarrow> nat" where
  "tieDraw i = [0, 11, 0, 11] ! i"

definition afterTie :: engine where
  "afterTie =
     \<lparr>players = JArr
        [JObj [(''name'', JStr ''Player 1''), (''cardHeld'', JNum 1), (''score'', JNum 0)],
         JObj [(''name'', JStr ''Player 2''), (''cardHeld'', JNum 12), (''score'', JNum 1)],
         JObj [(''name'', JStr ''Player 3''), (''cardHeld'', JNum 1), (''score'', JNum 0)],
         JObj [(''name'', JStr ''Player 4''), (''cardHeld'', JNum 12), (''score'', JNum 1)]],
      currentRound = 1,
      stateHistory =
        [JObj [(''players'', initialPlayers), (''currentRound'', JNum 0),
               (''totalRounds'', JNum 10)]]\<rparr>"

text \<open>
  The state the tests of the repository load, and a state of round \<open>0\<close> in which a
  player holds a card.
\<close>

definition loadedState :: jsval where
  "loadedState = JObj
     [(''players'', JArr
        [JObj [(''name'', JStr ''Test 1''), (''cardHeld'', JNum 5), (''score'', JNum 2)],
         JObj [(''name'', JStr ''Test 2''), (''cardHeld'', JNum 3), (''score'', JNum 1)],
         JObj [(''name'', JStr ''Test 3''), (''cardHeld'', JNum 4), (''score'', JNum 0)],
         JObj [(''name'', JStr ''Test 4''), (''cardHeld'', JNum 2), (''score'', JNum 1)]]),
      (''currentRound'', JNum 3),
      (''totalRounds'', JNum 10)]"

definition cardsAtZero :: jsval where
  "cardsAtZero = JObj
     [(''players'', JArr
        [JObj [(''name'', JStr ''Test 1''), (''cardHeld'', JNum 5), (''score'', JNum 2)]]),
      (''currentRound'', JNum 0)]"










section \<open>Properties\<close>

subsection \<open>Objects, draws and the two loops of a round\<close>

lemma TOTAL_ROUNDS_eq: "TOTAL_ROUNDS = 10"
  by (simp add: TOTAL_ROUNDS_def DECK_SIZE_def NUM_PLAYERS_def initialPlayers_def)

lemma map_of_assign: "map_of (assign k v fs) k' = (if k' = k then Some v else map_of fs k')"
  by (induction fs) auto

lemma set_prop_Inr: "set_prop p k v = Inr q \<Longrightarrow> \<exists>fs. p = JObj fs \<and> q = JObj (assign k v fs)"
  by (cases p) auto

lemma get_prop_assign:
  "get_prop (JObj (assign k v fs)) k' = (if k' = k then Inr v else get_prop (JObj fs) k')"
  by (simp add: map_of_assign)


lemma draw_each_nth:
  "draw_each rnd xs = Inr ys \<Longrightarrow>
   length ys = length xs \<and>
   (\<forall>i<length xs. set_prop (xs ! i) ''cardHeld'' (JNum (drawCard (rnd i))) = Inr (ys ! i))"
proof (induction xs arbitrary: rnd ys)
  case Nil
  then show ?case by simp
next
  case (Cons x xs)
  from Cons.prems obtain y ys' where
    y: "set_prop x ''cardHeld'' (JNum (drawCard (rnd 0))) = Inr y"
    and r: "draw_each (\<lambda>i. rnd (Suc i)) xs = Inr ys'" and ys: "ys = y # ys'"
    by (auto split: sum.splits)
  from Cons.IH[OF r] have l: "length ys' = length xs"
    and n: "\<forall>i<length xs. set_prop (xs ! i) ''cardHeld'' (JNum (drawCard (rnd (Suc i)))) = Inr (ys' ! i)"
    by auto
  show ?case
  proof (intro conjI allI impI)
    show "length ys = length (x # xs)" using l ys by simp
  next
    fix i assume "i < length (x # xs)"
    then show "set_prop ((x # xs) ! i) ''cardHeld'' (JNum (drawCard (rnd i))) = Inr (ys ! i)"
      using y n ys by (cases i) auto
  qed
qed




lemma award_nth:
  "award b ys = Inr zs \<Longrightarrow>
   length zs = length ys \<and>
   (\<forall>i<length ys.
      (if get_prop (ys ! i) ''cardHeld'' = Inr (JNum b)
       then add_score (ys ! i) = Inr (zs ! i) else zs ! i = ys ! i))"
proof (induction ys arbitrary: zs)
  case Nil
  then show ?case by simp
next
  case (Cons p ys)
  from Cons.prems obtain c q zs' where c: "get_prop p ''cardHeld'' = Inr c"
    and q: "(if c = JNum b then add_score p else Inr p) = Inr q"
    and r: "award b ys = Inr zs'" and zs: "zs = q # zs'"
    by (auto split: sum.splits)
  from Cons.IH[OF r] have l: "length zs' = length ys"
    and n: "\<forall>i<length ys.
      (if get_prop (ys ! i) ''cardHeld'' = Inr (JNum b)
       then add_score (ys ! i) = Inr (zs' ! i) else zs' ! i = ys ! i)"
    by auto
  have h: "if get_prop p ''cardHeld'' = Inr (JNum b) then add_score p = Inr q else q = p"
    using c q by (auto split: if_splits)
  show ?case
  proof (intro conjI allI impI)
    show "length zs = length (p # ys)" using l zs by simp
  next
    fix i assume "i < length (p # ys)"
    then show "if get_prop ((p # ys) ! i) ''cardHeld'' = Inr (JNum b)
       then add_score ((p # ys) ! i) = Inr (zs ! i) else zs ! i = (p # ys) ! i"
      using h n zs by (cases i) auto
  qed
qed





lemma runRound_done: "\<not> currentRound e < TOTAL_ROUNDS \<Longrightarrow> runRound rnd e = Inr (False, e)"
  by (simp add: runRound_def)

lemma iterate_elements:
  "iterate v = Inr xs \<Longrightarrow> draw_each rnd xs = Inr ys \<Longrightarrow> xs = elements v \<and> write_back v zs = (case v of JArr _ \<Rightarrow> JArr zs | _ \<Rightarrow> v) \<and> (v = JStr [] \<or> (\<exists>as. v = JArr as))"
proof (cases v)
  case (JStr s)
  assume "iterate v = Inr xs" "draw_each rnd xs = Inr ys"
  then show ?thesis using JStr by (cases s) (auto simp: elements_def split: sum.splits)
qed (auto simp: elements_def)

subsection \<open>What a round does\<close>

lemma runRound_success:
  assumes "runRound rnd e = Inr (ok, e')" and "currentRound e < TOTAL_ROUNDS"
  shows "ok \<and> players e \<noteq> JUndefined \<and>
    (\<exists>ys b zs.
       draw_each rnd (elements (players e)) = Inr ys \<and>
       biggest_card 0 ys = Inr b \<and>
       award b ys = Inr zs \<and>
       elements (players e') = zs \<and>
       (players e = JStr [] \<or> (\<exists>as. players e = JArr as)) \<and>
       players e' = (case players e of JArr as \<Rightarrow> JArr zs | v \<Rightarrow> v)) \<and>
    currentRound e' = currentRound e + 1 \<and>
    stateHistory e' = stateHistory e @
                [JObj [(''players'', json_value (players e)),
                       (''currentRound'', JNum (currentRound e)),
                       (''totalRounds'', JNum TOTAL_ROUNDS)]]"
proof -
  from assms obtain snap e1 e2 where
    snap: "getGameState e = Inr snap"
    and d: "drawCards rnd (e\<lparr>stateHistory := stateHistory e @ [snap]\<rparr>) = Inr e1"
    and r: "resolveRound e1 = Inr e2" and ok: "ok" "e' = e2"
    by (auto simp: runRound_def split: sum.splits)
  from snap have nu: "players e \<noteq> JUndefined"
    and snap_eq: "snap = JObj [(''players'', json_value (players e)),
                       (''currentRound'', JNum (currentRound e)),
                       (''totalRounds'', JNum TOTAL_ROUNDS)]"
    by (auto simp: getGameState_def json_copy_def split: if_splits)
  from d obtain xs ys where xs: "iterate (players e) = Inr xs"
    and ys: "draw_each rnd xs = Inr ys"
    and e1: "e1 = e\<lparr>stateHistory := stateHistory e @ [snap], players := write_back (players e) ys\<rparr>"
    by (auto simp: drawCards_def split: sum.splits)
  from iterate_elements[OF xs ys] have xe: "xs = elements (players e)"
    and shape: "players e = JStr [] \<or> (\<exists>as. players e = JArr as)"
    by auto
  have l: "length ys = length xs" using draw_each_nth[OF ys] by simp
  have it1: "iterate (players e1) = Inr ys"
    using shape e1 l xe by (auto simp: elements_def)
  from r it1 obtain b zs where b: "biggest_card 0 ys = Inr b" and zs: "award b ys = Inr zs"
    and e2: "e2 = e1\<lparr>players := write_back (players e1) zs, currentRound := currentRound e1 + 1\<rparr>"
    by (auto simp: resolveRound_def split: sum.splits)
  have lz: "length zs = length ys" using award_nth[OF zs] by simp
  have pe: "players e' = (case players e of JArr as \<Rightarrow> JArr zs | v \<Rightarrow> v)"
    using shape e1 e2 ok by auto
  have el: "elements (players e') = zs"
    using shape pe lz l xe by (auto simp: elements_def)
  have "currentRound e' = currentRound e + 1"
    and "stateHistory e' = stateHistory e @ [snap]"
    using e1 e2 ok by simp_all
  then show ?thesis using ok nu ys b zs el shape xe snap_eq pe by auto
qed




lemma newGame_simps:
  "players newGame = initialPlayers" "currentRound newGame = 0" "stateHistory newGame = []"
  by (simp_all add: newGame_def)




subsection \<open>Scores of a round\<close>





lemma runRound_tie: "runRound tieDraw newGame = Inr (True, afterTie)"
  by (simp add: runRound_def getGameState_def json_copy_def drawCards_def resolveRound_def
      add_score_def drawCard_def tieDraw_def newGame_def afterTie_def initialPlayers_def
      TOTAL_ROUNDS_eq MAX_CARD_VALUE_def POINTS_PER_SCORE_def)



subsection \<open>Loading a state\<close>

lemma get_prop_truthy: "truthy v \<Longrightarrow> get_prop v k = Inr (field v k)"
  by (cases v) (auto simp: field_def)

lemma setGameState_rejects:
  "\<not> truthy state \<or> \<not> truthy (field state ''players'') \<or>
   \<not> is_number (field state ''currentRound'') \<Longrightarrow> setGameState state e = Inr (False, e)"
proof (cases "truthy state")
  case False
  then show ?thesis by (simp add: setGameState_def)
next
  case True
  assume a: "\<not> truthy state \<or> \<not> truthy (field state ''players'') \<or>
   \<not> is_number (field state ''currentRound'')"
  show ?thesis
  proof (cases "truthy (field state ''players'')")
    case False
    then show ?thesis using True by (simp add: setGameState_def get_prop_truthy)
  next
    case t: True
    with a True have "\<not> is_number (field state ''currentRound'')" by simp
    then show ?thesis using True t
      by (cases "field state ''currentRound''") (simp_all add: setGameState_def get_prop_truthy)
  qed
qed

lemma setGameState_accepts:
  assumes "truthy state" and "truthy (field state ''players'')"
    and "field state ''currentRound'' = JNum n"
  shows "setGameState state e =
     Inr (True, e\<lparr>players := json_value (field state ''players''), currentRound := n\<rparr>)"
proof -
  have "field state ''players'' \<noteq> JUndefined" using assms(2) by auto
  then show ?thesis using assms
    by (simp add: setGameState_def get_prop_truthy json_copy_def)
qed

text \<open>
  Claim C4, amended. \<^verbatim>\<open>setGameState\<close> returns \<^verbatim>\<open>false\<close> and leaves the engine as it was
  for \<^verbatim>\<open>null\<close>, \<^verbatim>\<open>undefined\<close>, \<^verbatim>\<open>{}\<close>, \<^verbatim>\<open>{players: []}\<close>, \<^verbatim>\<open>{currentRound: 0}\<close> and
  \<^verbatim>\<open>{players: [], currentRound: "invalid"}\<close>, and for every other input that is falsy,
  whose \<^verbatim>\<open>players\<close> is falsy, or whose \<^verbatim>\<open>currentRound\<close> is not a number. For every input
  that is truthy, has a truthy \<^verbatim>\<open>players\<close> and a number as \<^verbatim>\<open>currentRound\<close> it returns
  \<^verbatim>\<open>true\<close>, and the engine holds the JSON copy of \<^verbatim>\<open>state.players\<close> and
  \<^verbatim>\<open>state.currentRound\<close>; the history is not touched.
\<close>

theorem setGameState_validation:
  "setGameState JNull e = Inr (False, e) \<and>
   setGameState JUndefined e = Inr (False, e) \<and>
   setGameState (JObj []) e = Inr (False, e) \<and>
   setGameState (JObj [(''players'', JArr [])]) e = Inr (False, e) \<and>
   setGameState (JObj [(''currentRound'', JNum 0)]) e = Inr (False, e) \<and>
   setGameState (JObj [(''players'', JArr []), (''currentRound'', JStr ''invalid'')]) e =
     Inr (False, e) \<and>
   (truthy state \<and> truthy (field state ''players'') \<and> field state ''currentRound'' = JNum n \<longrightarrow>
      setGameState state e =
        Inr (True, e\<lparr>players := json_value (field state ''players''), currentRound := n\<rparr>)) \<and>
   (\<not> truthy state \<or> \<not> truthy (field state ''players'') \<or>
    \<not> is_number (field state ''currentRound'') \<longrightarrow> setGameState state e = Inr (False, e))"
proof -
  have six: "setGameState JNull e = Inr (False, e)"
    "setGameState JUndefined e = Inr (False, e)"
    "setGameState (JObj []) e = Inr (False, e)"
    "setGameState (JObj [(''players'', JArr [])]) e = Inr (False, e)"
    "setGameState (JObj [(''currentRound'', JNum 0)]) e = Inr (False, e)"
    "setGameState (JObj [(''players'', JArr []), (''currentRound'', JStr ''invalid'')]) e =
       Inr (False, e)"
    by (simp_all add: setGameState_def)
  show ?thesis using six setGameState_accepts setGameState_rejects by blast
qed

theorem setGameState_validation_witness:
  "truthy loadedState \<and> truthy (field loadedState ''players'') \<and>
   field loadedState ''currentRound'' = JNum 3 \<and>
   setGameState loadedState newGame =
     Inr (True, newGame\<lparr>players := field loadedState ''players'', currentRound := 3\<rparr>) \<and>
   \<not> is_number (field (JObj [(''players'', JArr [])]) ''currentRound'') \<and>
   setGameState (JObj [(''players'', JArr [])]) newGame = Inr (False, newGame)"
  using setGameState_validation[of newGame loadedState 3]
        setGameState_validation[of newGame "JObj [(''players'', JArr [])]" 0]
  by (simp add: loadedState_def field_def)

theorem setGameState_falsy_players_counterexample:
  "setGameState (JObj [(''players'', JNum 0), (''currentRound'', JNum 1)]) newGame =
     Inr (False, newGame) \<and>
   setGameState (JObj [(''players'', JStr ''''), (''currentRound'', JNum 1)]) newGame =
     Inr (False, newGame) \<and>
   setGameState (JObj [(''players'', JBool False), (''currentRound'', JNum 1)]) newGame =
     Inr (False, newGame)"
  by (simp add: setGameState_def)

text \<open>
  Claim C10. The check of \<^verbatim>\<open>setGameState\<close> asks only whether \<^verbatim>\<open>state.players\<close> is truthy:
  with the string \<^verbatim>\<open>"abc"\<close> or the number \<^verbatim>\<open>7\<close> as \<^verbatim>\<open>players\<close> and a number as
  \<^verbatim>\<open>currentRound\<close> it returns \<^verbatim>\<open>true\<close>, and the engine's roster is that string or number.
\<close>

theorem setGameState_adopts_non_array:
  "setGameState (JObj [(''players'', JStr ''abc''), (''currentRound'', JNum 0)]) e =
     Inr (True, e\<lparr>players := JStr ''abc'', currentRound := 0\<rparr>) \<and>
   setGameState (JObj [(''players'', JNum 7), (''currentRound'', JNum 2)]) e =
     Inr (True, e\<lparr>players := JNum 7, currentRound := 2\<rparr>)"
  by (simp add: setGameState_def json_copy_def)

subsection \<open>Engines that have loaded no state\<close>

lemma json_value_initialPlayers: "json_value initialPlayers = initialPlayers"
  by (simp add: initialPlayers_def)

lemma resetGame_newGame: "resetGame e = Inr newGame"
  by (simp add: resetGame_def json_copy_def json_value_initialPlayers newGame_def)
     (simp add: initialPlayers_def)

lemma createGameLogic_fresh:
  "createGameLogic JUndefined = Inr newGame" "createGameLogic JNull = Inr newGame"
  by (simp_all add: createGameLogic_def json_copy_def json_value_initialPlayers newGame_def)
     (simp_all add: initialPlayers_def)

lemma cards_null_initialPlayers: "cards_null initialPlayers"
  by (simp add: cards_null_def elements_def initialPlayers_def)

lemma unloaded_newGame: "unloaded newGame"
  by (simp add: unloaded_def newGame_simps cards_null_initialPlayers)
     (simp add: initialPlayers_def)

lemma json_props_null:
  "map_of fs k = Some JNull \<Longrightarrow> map_of (json_props fs) k = Some JNull"
  by (induction fs) (auto split: if_splits)

lemma cards_null_json_elems:
  "list_all (\<lambda>p. get_prop p ''cardHeld'' = Inr JNull) xs \<Longrightarrow>
   list_all (\<lambda>p. get_prop p ''cardHeld'' = Inr JNull) (json_elems xs)"
proof (induction xs)
  case Nil
  then show ?case by simp
next
  case (Cons x xs)
  from Cons.prems have x: "get_prop x ''cardHeld'' = Inr JNull" by simp
  then obtain fs where fs: "x = JObj fs" by (cases x) auto
  with x have "map_of fs ''cardHeld'' = Some JNull" by (auto split: option.splits)
  then have "map_of (json_props fs) ''cardHeld'' = Some JNull" by (rule json_props_null)
  then show ?case using Cons fs by simp
qed

lemma cards_null_json_value: "cards_null ps \<Longrightarrow> cards_null (json_value ps)"
  unfolding cards_null_def by (cases ps) (auto simp: elements_def cards_null_json_elems)

lemma is_array_json_value: "is_array (json_value ps) = is_array ps"
  by (cases ps) auto

lemma unloaded_modifyPlayerName:
  assumes "unloaded e" and "modifyPlayerName i n e = Inr e'"
  shows "unloaded e'"
proof -
  from assms(1) obtain xs where xs: "players e = JArr xs"
    by (cases "players e") (auto simp: unloaded_def)
  show ?thesis
  proof (cases "i < length xs \<and> truthy (xs ! i) \<and> n \<noteq> JStr []")
    case False
    then have "e' = e" using assms(2) xs
      by (auto simp: modifyPlayerName_def split: if_splits)
    then show ?thesis using assms(1) by simp
  next
    case True
    with assms(2) xs obtain q where q: "set_prop (xs ! i) ''name'' n = Inr q"
      and e': "e' = e\<lparr>players := JArr (xs[i := q])\<rparr>"
      by (auto simp: modifyPlayerName_def split: sum.splits)
    from set_prop_Inr[OF q] obtain fs where fs: "xs ! i = JObj fs"
      and qf: "q = JObj (assign ''name'' n fs)" by auto
    have keep: "get_prop q ''cardHeld'' = get_prop (xs ! i) ''cardHeld''"
      using fs qf by (simp add: map_of_assign)
    have "cards_null (JArr xs) \<Longrightarrow> cards_null (JArr (xs[i := q]))"
      unfolding cards_null_def elements_def
      using keep True by (auto simp: list_all_length nth_list_update)
    then show ?thesis using assms(1) xs e' by (simp add: unloaded_def)
  qed
qed

lemma unloaded_runRound:
  assumes "unloaded e" and "runRound rnd e = Inr (ok, e')"
  shows "unloaded e'"
proof (cases "currentRound e < TOTAL_ROUNDS")
  case False
  then have "e' = e" using assms(2) by (simp add: runRound_def)
  then show ?thesis using assms(1) by simp
next
  case True
  from assms(1) obtain xs where xs: "players e = JArr xs"
    by (cases "players e") (auto simp: unloaded_def)
  let ?snap = "JObj [(''players'', json_value (players e)),
                       (''currentRound'', JNum (currentRound e)),
                       (''totalRounds'', JNum TOTAL_ROUNDS)]"
  from runRound_success[OF assms(2) True] xs obtain zs where
    p: "players e' = JArr zs" and c: "currentRound e' = currentRound e + 1"
    and h: "stateHistory e' = stateHistory e @ [?snap]"
    by auto
  have cr: "currentRound e = int (length (stateHistory e))"
    using assms(1) by (simp add: unloaded_def)
  have fld: "field ?snap ''players'' = json_value (players e)" by (simp add: field_def)
  have snap: "snapshot_of (length (stateHistory e)) ?snap"
    unfolding snapshot_of_def fld
    using assms(1) cr xs cards_null_json_value[of "players e"]
    by (auto simp: unloaded_def)
  have old: "\<forall>i<length (stateHistory e). snapshot_of i (stateHistory e ! i)"
    using assms(1) by (simp add: unloaded_def)
  have "\<forall>i<length (stateHistory e'). snapshot_of i (stateHistory e' ! i)"
  proof (intro allI impI)
    fix i assume "i < length (stateHistory e')"
    then have "i < length (stateHistory e) \<or> i = length (stateHistory e)" using h by auto
    then show "snapshot_of i (stateHistory e' ! i)"
      using old snap h by (auto simp: nth_append)
  qed
  then show ?thesis using p c h cr by (simp add: unloaded_def)
qed

lemma unloaded_undoLastRound:
  assumes "unloaded e" and "undoLastRound e = Inr (ok, e')"
  shows "unloaded e'"
proof (cases "stateHistory e = []")
  case True
  then have "e' = e" using assms(2) by (simp add: undoLastRound_def)
  then show ?thesis using assms(1) by simp
next
  case False
  define i where "i = length (stateHistory e) - 1"
  define s where "s = last (stateHistory e)"
  have il: "i < length (stateHistory e)" using False by (simp add: i_def)
  have sl: "s = stateHistory e ! i" using False by (simp add: s_def i_def last_conv_nth)
  have so: "snapshot_of i s" using assms(1) il sl by (simp add: unloaded_def)
  define ps where "ps = field s ''players''"
  have arr: "is_array ps" and shape: "s = JObj [(''players'', ps), (''currentRound'', JNum (int i)),
                (''totalRounds'', JNum TOTAL_ROUNDS)]"
    and nul: "i = 0 \<Longrightarrow> cards_null ps"
    using so by (simp_all add: snapshot_of_def ps_def)
  have t: "truthy ps" and nu: "ps \<noteq> JUndefined" using arr by (cases ps; simp)+
  have set: "setGameState s (e\<lparr>stateHistory := butlast (stateHistory e)\<rparr>) =
    Inr (True, e\<lparr>stateHistory := butlast (stateHistory e), players := json_value ps,
                  currentRound := int i\<rparr>)"
    by (subst shape) (simp add: setGameState_def json_copy_def t nu)
  have e': "e' = e\<lparr>stateHistory := butlast (stateHistory e), players := json_value ps,
                  currentRound := int i\<rparr>"
    using assms(2) False set by (simp add: undoLastRound_def s_def Let_def)
  have old: "\<forall>j<length (stateHistory e). snapshot_of j (stateHistory e ! j)"
    using assms(1) by (simp add: unloaded_def)
  have "\<forall>j<length (butlast (stateHistory e)). snapshot_of j (butlast (stateHistory e) ! j)"
    using old by (simp add: nth_butlast)
  moreover have "is_array (json_value ps)" using arr by (simp add: is_array_json_value)
  moreover have "i = 0 \<Longrightarrow> cards_null (json_value ps)" using nul cards_null_json_value by blast
  moreover have "int i = int (length (butlast (stateHistory e)))" by (simp add: i_def)
  ultimately show ?thesis using e' by (simp add: unloaded_def)
qed

lemma unloaded_runGameLoop:
  "unloaded e \<Longrightarrow> runGameLoop rnds e = Inr (ps, e') \<Longrightarrow> unloaded e'"
proof (induction rnds e rule: runGameLoop.induct)
  case (1 rnds e)
  show ?case
  proof (cases "currentRound e < TOTAL_ROUNDS")
    case False
    then show ?thesis using "1.prems" by (simp add: runGameLoop.simps[of rnds e])
  next
    case True
    with "1.prems"(2) obtain ok e1 where r: "runRound (rnds 0) e = Inr (ok, e1)"
      and l: "runGameLoop (\<lambda>k. rnds (Suc k)) e1 = Inr (ps, e')"
      by (auto simp: runGameLoop.simps[of rnds e] split: sum.splits)
    have "unloaded e1" using unloaded_runRound[OF "1.prems"(1) r] .
    from "1.IH"[OF True r refl this l] show ?thesis .
  qed
qed

lemma unloaded_perform:
  assumes "unloaded e" and "\<not> is_import c" and "perform c e = Inr e'"
  shows "unloaded e'"
proof (cases c)
  case (ModifyPlayerName i n)
  then show ?thesis using assms unloaded_modifyPlayerName by auto
next
  case (RunGameLoop rnds)
  then show ?thesis using assms unloaded_runGameLoop by (auto split: sum.splits)
next
  case (RunRound rnd)
  then show ?thesis using assms unloaded_runRound by (auto split: sum.splits)
next
  case UndoLastRound
  then show ?thesis using assms unloaded_undoLastRound by (auto split: sum.splits)
next
  case GetGameState
  then show ?thesis using assms by (auto split: sum.splits)
next
  case (SetGameState state)
  then show ?thesis using assms by simp
next
  case ResetGame
  then show ?thesis using assms unloaded_newGame by (simp add: resetGame_newGame)
qed

lemma unloaded_perform_all:
  "unloaded e \<Longrightarrow> list_all (\<lambda>c. \<not> is_import c) cs \<Longrightarrow> perform_all cs e = Inr e' \<Longrightarrow>
   unloaded e'"
proof (induction cs arbitrary: e)
  case Nil
  then show ?case by simp
next
  case (Cons c cs)
  from Cons.prems(3) obtain e1 where 1: "perform c e = Inr e1" and 2: "perform_all cs e1 = Inr e'"
    by (auto split: sum.splits)
  have "unloaded e1" using unloaded_perform[OF Cons.prems(1) _ 1] Cons.prems(2) by simp
  then show ?case using Cons.IH[OF _ _ 2] Cons.prems(2) by simp
qed

lemma undoLastRound_afterTie: "undoLastRound afterTie = Inr (True, newGame)"
  by (simp add: undoLastRound_def setGameState_def json_copy_def afterTie_def newGame_def
      initialPlayers_def)

text \<open>
  Claim C5, amended. The history holds as many snapshots as \<^verbatim>\<open>currentRound\<close> says in an
  engine created without a saved state, in the state \<^verbatim>\<open>resetGame\<close> leaves from any
  state, and after every sequence of calls from there that does not call
  \<^verbatim>\<open>setGameState\<close>. (\<^verbatim>\<open>setGameState\<close> sets \<^verbatim>\<open>currentRound\<close> and leaves the history as it
  is.)
\<close>

theorem history_length_unloaded:
  "createGameLogic JUndefined = Inr newGame \<and>
   int (length (stateHistory newGame)) = currentRound newGame \<and>
   resetGame e0 = Inr newGame \<and>
   (list_all (\<lambda>c. \<not> is_import c) cs \<and> perform_all cs newGame = Inr e \<longrightarrow>
      int (length (stateHistory e)) = currentRound e)"
proof (intro conjI impI)
  show "createGameLogic JUndefined = Inr newGame" by (rule createGameLogic_fresh)
  show "int (length (stateHistory newGame)) = currentRound newGame" by (simp add: newGame_simps)
  show "resetGame e0 = Inr newGame" by (rule resetGame_newGame)
next
  assume a: "list_all (\<lambda>c. \<not> is_import c) cs \<and> perform_all cs newGame = Inr e"
  then have "unloaded e" using unloaded_perform_all[OF unloaded_newGame] by blast
  then show "int (length (stateHistory e)) = currentRound e" by (simp add: unloaded_def)
qed

theorem history_length_unloaded_witness:
  "list_all (\<lambda>c. \<not> is_import c)
     [RunRound tieDraw, ModifyPlayerName 9 (JStr ''Ann''), UndoLastRound, RunRound tieDraw] \<and>
   perform_all [RunRound tieDraw, ModifyPlayerName 9 (JStr ''Ann''), UndoLastRound, RunRound tieDraw]
     newGame = Inr afterTie \<and>
   int (length (stateHistory afterTie)) = currentRound afterTie"
proof -
  have m: "modifyPlayerName 9 (JStr ''Ann'') afterTie = Inr afterTie"
    by (simp add: modifyPlayerName_def afterTie_def)
  have p: "perform_all [RunRound tieDraw, ModifyPlayerName 9 (JStr ''Ann''), UndoLastRound, RunRound tieDraw]
     newGame = Inr afterTie"
    by (simp add: runRound_tie m undoLastRound_afterTie)
  from history_length_unloaded[of newGame
      "[RunRound tieDraw, ModifyPlayerName 9 (JStr ''Ann''), UndoLastRound, RunRound tieDraw]" afterTie] p
  show ?thesis by simp
qed

theorem history_length_import_counterexample:
  "perform_all [RunRound tieDraw, SetGameState loadedState] newGame =
     Inr (afterTie\<lparr>players := field loadedState ''players'', currentRound := 3\<rparr>) \<and>
   length (stateHistory (afterTie\<lparr>players := field loadedState ''players'', currentRound := 3\<rparr>)) = 1 \<and>
   currentRound (afterTie\<lparr>players := field loadedState ''players'', currentRound := 3\<rparr>) = 3"
proof -
  have "setGameState loadedState afterTie =
     Inr (True, afterTie\<lparr>players := field loadedState ''players'', currentRound := 3\<rparr>)"
    by (simp add: setGameState_def json_copy_def loadedState_def field_def)
  then show ?thesis by (simp add: runRound_tie) (simp add: afterTie_def)
qed

text \<open>
  Claim C9, amended. No player holds a card (\<^verbatim>\<open>cardHeld\<close> is \<^verbatim>\<open>null\<close>) in an engine
  created without a saved state and in the state \<^verbatim>\<open>resetGame\<close> leaves from any state,
  both at round \<open>0\<close>; and whenever \<^verbatim>\<open>currentRound\<close> is \<open>0\<close> after a sequence of calls
  from there that does not call \<^verbatim>\<open>setGameState\<close>, undoing back to round \<open>0\<close> included.
  (\<^verbatim>\<open>setGameState\<close> takes the cards of the roster it is given, whatever the round.)
\<close>

theorem cards_null_at_round_zero:
  "createGameLogic JUndefined = Inr newGame \<and>
   currentRound newGame = 0 \<and> cards_null (players newGame) \<and>
   resetGame e0 = Inr newGame \<and>
   (list_all (\<lambda>c. \<not> is_import c) cs \<and> perform_all cs newGame = Inr e \<and> currentRound e = 0 \<longrightarrow>
      cards_null (players e))"
proof (intro conjI impI)
  show "createGameLogic JUndefined = Inr newGame" by (rule createGameLogic_fresh)
  show "currentRound newGame = 0" by (simp add: newGame_simps)
  show "cards_null (players newGame)" by (simp add: newGame_simps cards_null_initialPlayers)
  show "resetGame e0 = Inr newGame" by (rule resetGame_newGame)
next
  assume a: "list_all (\<lambda>c. \<not> is_import c) cs \<and> perform_all cs newGame = Inr e \<and>
    currentRound e = 0"
  then have "unloaded e" using unloaded_perform_all[OF unloaded_newGame] by blast
  then show "cards_null (players e)" using a by (simp add: unloaded_def)
qed

theorem cards_null_at_round_zero_witness:
  "list_all (\<lambda>c. \<not> is_import c) [RunRound tieDraw, UndoLastRound] \<and>
   perform_all [RunRound tieDraw, UndoLastRound] newGame = Inr newGame \<and>
   currentRound newGame = 0 \<and> cards_null (players newGame)"
proof -
  have p: "perform_all [RunRound tieDraw, UndoLastRound] newGame = Inr newGame"
    by (simp add: runRound_tie undoLastRound_afterTie)
  from cards_null_at_round_zero[of newGame "[RunRound tieDraw, UndoLastRound]" newGame] p
  show ?thesis by (simp add: newGame_simps)
qed

theorem cards_at_round_zero_counterexample:
  "perform_all [SetGameState cardsAtZero] newGame =
     Inr (newGame\<lparr>players := field cardsAtZero ''players'', currentRound := 0\<rparr>) \<and>
   currentRound (newGame\<lparr>players := field cardsAtZero ''players'', currentRound := 0\<rparr>) = 0 \<and>
   get_prop (roster (newGame\<lparr>players := field cardsAtZero ''players'', currentRound := 0\<rparr>) ! 0)
     ''cardHeld'' = Inr (JNum 5) \<and>
   \<not> cards_null (players (newGame\<lparr>players := field cardsAtZero ''players'', currentRound := 0\<rparr>))"
  by (simp add: setGameState_def json_copy_def cardsAtZero_def field_def cards_null_def
      elements_def roster_def)

subsection \<open>The game loop\<close>





lemma round_state_Suc:
  "runRound (rnds 0) e = Inr (ok, e1) \<Longrightarrow>
   round_state rnds e (Suc k) =
     (case after_rounds k (\<lambda>k. rnds (Suc k)) e1 of Inr e' \<Rightarrow> e' | Inl err \<Rightarrow> e)"
  by (simp add: round_state_def)











subsection \<open>Stores\<close>

lemma val_in_mono: "val_in lo hi v \<Longrightarrow> lo' \<le> lo \<Longrightarrow> hi \<le> hi' \<Longrightarrow> val_in lo' hi' v"
  by (cases v) (auto simp: val_in_def)
























subsection \<open>JSON copies, and undoing a round\<close>




















end
